theory Spec2Isabelle
  imports Complex_Main
begin

section \<open>Values of the export script\<close>

text \<open>
  The script \<^verbatim>\<open>scripts/export_wochenbericht.py\<close> works on values decoded from JSON and
  on the values it stores into worksheet cells. One datatype holds both. Modelling
  conventions:
  \<^item> a Python \<^verbatim>\<open>float\<close> is a binary64 number, given by its exact rational value; every
    float operation of the script (conversion from text or from an integer, division,
    subtraction, \<^verbatim>\<open>round\<close>) rounds its exact result to binary64 with \<open>b64\<close>. The two
    zeros are one value. Infinities and NaN are not values: \<^verbatim>\<open>parse_decimal\<close> rejects the
    texts that denote them, and a JSON number is taken to be finite;
  \<^item> a Python \<^verbatim>\<open>int\<close> is an unbounded integer; converting one beyond the binary64 range
    to a float raises \<^verbatim>\<open>OverflowError\<close>;
  \<^item> a Python \<^verbatim>\<open>str\<close> is a list of characters, each standing for one code point
    below 256;
  \<^item> \<^verbatim>\<open>datetime.time\<close> and \<^verbatim>\<open>datetime.date\<close> objects are \<open>pytime\<close> and \<open>pydate\<close>
    values; only the fields the script sets or reads are kept;
  \<^item> an exception is a value of \<open>py_error\<close>; a function that can raise returns a sum, or
    the worksheet as it stands together with the exception.
\<close>

datatype pytime = Time (hour: nat) (minute: nat)

datatype pydate = Date (year: nat) (month: nat) (day: nat)

datatype pyval =
    VNone
  | VBool bool
  | VInt int
  | VFloat rat
  | VStr string
  | VTime pytime
  | VDate pydate
  | VList "pyval list"
  | VDict "(string \<times> pyval) list"

type_synonym pydict = "string \<rightharpoonup> pyval"

datatype py_error =
    RuntimeError string
  | ValueError
  | TypeError
  | OverflowError
  | IllegalCharacterError

text \<open>\<^verbatim>\<open>d.get(k, default)\<close> on a dictionary.\<close>

definition get_default :: "pydict \<Rightarrow> string \<Rightarrow> pyval \<Rightarrow> pyval" where
  "get_default d k dflt = (case d k of None \<Rightarrow> dflt | Some v \<Rightarrow> v)"

text \<open>\<^verbatim>\<open>d.get(k)\<close>: the default is \<^verbatim>\<open>None\<close>.\<close>

definition get_none :: "pydict \<Rightarrow> string \<Rightarrow> pyval" where
  "get_none d k = get_default d k VNone"

text \<open>Truth value of an object, as \<^verbatim>\<open>not value\<close> and \<^verbatim>\<open>if value:\<close> test it. A time
  object is always true (Python 3.5 and later).\<close>

fun truthy :: "pyval \<Rightarrow> bool" where
  "truthy VNone = False"
| "truthy (VBool b) = b"
| "truthy (VInt n) = (n \<noteq> 0)"
| "truthy (VFloat x) = (x \<noteq> 0)"
| "truthy (VStr s) = (s \<noteq> [])"
| "truthy (VTime t) = True"
| "truthy (VDate d) = True"
| "truthy (VList xs) = (xs \<noteq> [])"
| "truthy (VDict kvs) = (kvs \<noteq> [])"

text \<open>\<^verbatim>\<open>isinstance(v, str)\<close>.\<close>

fun is_str :: "pyval \<Rightarrow> bool" where
  "is_str (VStr s) = True"
| "is_str v = False"

text \<open>\<^verbatim>\<open>isinstance(v, (int, float))\<close>: an \<^verbatim>\<open>int\<close>, a \<^verbatim>\<open>bool\<close> (a subclass of
  \<^verbatim>\<open>int\<close>) or a \<^verbatim>\<open>float\<close>.\<close>

fun is_number :: "pyval \<Rightarrow> bool" where
  "is_number (VBool b) = True"
| "is_number (VInt n) = True"
| "is_number (VFloat x) = True"
| "is_number v = False"

text \<open>The exact value of a number, as comparisons such as \<^verbatim>\<open>v >= 0\<close> use it; zero for a
  value that is not a number.\<close>

fun num_value :: "pyval \<Rightarrow> rat" where
  "num_value (VBool b) = (if b then 1 else 0)"
| "num_value (VInt n) = of_int n"
| "num_value (VFloat x) = x"
| "num_value v = 0"

section \<open>Binary64 rounding\<close>

text \<open>The number of binary digits of a positive integer (\<^verbatim>\<open>int.bit_length\<close>).\<close>

function bit_length :: "int \<Rightarrow> nat" where
  "bit_length n = (if n \<le> 0 then 0 else Suc (bit_length (n div 2)))"
  by auto
termination
  by (relation "measure nat") auto

declare bit_length.simps [simp del]

definition pow2 :: "int \<Rightarrow> rat" where
  "pow2 e = (if 0 \<le> e then 2 ^ nat e else 1 / 2 ^ nat (- e))"

text \<open>The binary exponent of a number other than zero: \<open>2 ^ e \<le> \<bar>x\<bar> < 2 ^ (e + 1)\<close>.\<close>

definition ilog2 :: "rat \<Rightarrow> int" where
  "ilog2 x =
     (if 1 \<le> \<bar>x\<bar> then int (bit_length \<lfloor>\<bar>x\<bar>\<rfloor>) - 1
      else - int (bit_length (\<lceil>1 / \<bar>x\<bar>\<rceil> - 1)))"

text \<open>The nearest integer, a tie going to the even one.\<close>

definition round_half_even :: "rat \<Rightarrow> int" where
  "round_half_even y =
     (let f = \<lfloor>y\<rfloor>; d = y - of_int f
      in if d < 1 / 2 then f else if 1 / 2 < d then f + 1
         else if even f then f else f + 1)"

text \<open>The binary64 number nearest to \<open>x\<close>, a tie going to the even significand: 53
  significant bits, the unit in the last place never below \<open>2 ^ (- 1074)\<close> (subnormal
  numbers; a number below half of that becomes zero). Numbers beyond the binary64 range are
  caught by \<open>overflow_threshold\<close> before they are rounded.\<close>

definition b64 :: "rat \<Rightarrow> rat" where
  "b64 x =
     (if x = 0 then 0
      else (let e = max (ilog2 x) (- 1022); ulp = pow2 (e - 52)
            in of_int (round_half_even (x / ulp)) * ulp))"

text \<open>From this magnitude on, rounding to binary64 gives an infinity.\<close>

definition overflow_threshold :: rat where
  "overflow_threshold = 2 ^ 1024 - 2 ^ 970"

text \<open>\<^verbatim>\<open>float(v)\<close> for a value that passed \<^verbatim>\<open>isinstance(v, (int, float))\<close>: an integer is
  rounded to binary64, and one too large raises. The script converts no other value, so
  the last case is never reached.\<close>

definition py_float :: "pyval \<Rightarrow> py_error + rat" where
  "py_float v =
     (case v of
        VBool b \<Rightarrow> Inr (if b then 1 else 0)
      | VInt n \<Rightarrow> if overflow_threshold \<le> \<bar>of_int n\<bar> then Inl OverflowError
                  else Inr (b64 (of_int n))
      | VFloat x \<Rightarrow> Inr x
      | _ \<Rightarrow> Inl TypeError)"

text \<open>\<^verbatim>\<open>round(x, 2)\<close> on a float: the exact value goes to the nearest multiple of 0.01,
  an exact tie to the even one, and the binary64 number nearest to that decimal is the
  result.\<close>

definition decimal2 :: "rat \<Rightarrow> rat" where
  "decimal2 x = of_int (round_half_even (x * 100)) / 100"

definition round2 :: "rat \<Rightarrow> rat" where
  "round2 x = b64 (decimal2 x)"

section \<open>String operations\<close>

text \<open>The characters \<^verbatim>\<open>str.strip()\<close> removes, among the code points below 256.\<close>

definition py_isspace :: "char \<Rightarrow> bool" where
  "py_isspace c = (of_char c \<in> {9, 10, 11, 12, 13, 28, 29, 30, 31, 32, 133, 160 :: nat})"

definition strip :: "string \<Rightarrow> string" where
  "strip s = rev (dropWhile py_isspace (rev (dropWhile py_isspace s)))"

text \<open>The characters \<^verbatim>\<open>int()\<close> and \<^verbatim>\<open>float()\<close> skip around a number: the ASCII white
  space and the two other spaces below 256, but not the separators 28 to 31.\<close>

definition num_isspace :: "char \<Rightarrow> bool" where
  "num_isspace c = (of_char c \<in> {9, 10, 11, 12, 13, 32, 133, 160 :: nat})"

definition num_strip :: "string \<Rightarrow> string" where
  "num_strip s = rev (dropWhile num_isspace (rev (dropWhile num_isspace s)))"

text \<open>\<^verbatim>\<open>s.replace(",", ".")\<close>.\<close>

definition replace_comma :: "string \<Rightarrow> string" where
  "replace_comma s = map (\<lambda>c. if c = CHR '','' then CHR ''.'' else c) s"

text \<open>\<^verbatim>\<open>s.lower()\<close> on code points below 256.\<close>

definition lower_char :: "char \<Rightarrow> char" where
  "lower_char c =
     (let n = (of_char c :: nat) in
      if (65 \<le> n \<and> n \<le> 90) \<or> (192 \<le> n \<and> n \<le> 222 \<and> n \<noteq> 215) then char_of (n + 32) else c)"

definition lower :: "string \<Rightarrow> string" where
  "lower s = map lower_char s"

text \<open>\<^verbatim>\<open>s.split(sep)\<close> for a separator of one character.\<close>

fun split_on :: "char \<Rightarrow> string \<Rightarrow> string list" where
  "split_on sep [] = [[]]"
| "split_on sep (c # cs) =
     (if c = sep then [] # split_on sep cs
      else (case split_on sep cs of
              [] \<Rightarrow> [[c]]
            | p # ps \<Rightarrow> (c # p) # ps))"

definition is_digit :: "char \<Rightarrow> bool" where
  "is_digit c = (48 \<le> (of_char c :: nat) \<and> (of_char c :: nat) \<le> 57)"

definition digit_val :: "char \<Rightarrow> nat" where
  "digit_val c = of_char c - 48"

text \<open>Value of a string of decimal digits, most significant first.\<close>

definition digits_val :: "string \<Rightarrow> nat" where
  "digits_val ds = foldl (\<lambda>acc c. 10 * acc + digit_val c) 0 ds"

text \<open>The underscore rule shared by \<^verbatim>\<open>int()\<close> and \<^verbatim>\<open>float()\<close>: an underscore must
  stand between two digits. \<open>strip_underscores prev s\<close> removes the underscores of \<open>s\<close>,
  \<open>prev\<close> being the character before \<open>s\<close>; \<open>None\<close> when one is misplaced.\<close>

fun strip_underscores :: "char option \<Rightarrow> string \<Rightarrow> string option" where
  "strip_underscores prev [] = (if prev = Some CHR ''_'' then None else Some [])"
| "strip_underscores prev (c # cs) =
     (if c = CHR ''_'' then
        (case prev of
           Some p \<Rightarrow> if is_digit p then strip_underscores (Some c) cs else None
         | None \<Rightarrow> None)
      else if prev = Some CHR ''_'' \<and> \<not> is_digit c then None
      else map_option ((#) c) (strip_underscores (Some c) cs))"

text \<open>An optional sign in front of the rest.\<close>

fun split_sign :: "string \<Rightarrow> bool \<times> string" where
  "split_sign [] = (False, [])"
| "split_sign (c # cs) =
     (if c = CHR ''-'' then (True, cs)
      else if c = CHR ''+'' then (False, cs)
      else (False, c # cs))"

text \<open>\<^verbatim>\<open>int(s)\<close> for a string, base 10: white space around, an optional sign, decimal
  digits with single underscores between them, and no more digits than the interpreter's
  default limit of 4300. \<open>None\<close> is \<^verbatim>\<open>ValueError\<close>.\<close>

definition py_int_str :: "string \<Rightarrow> int option" where
  "py_int_str s =
     (let (neg, body) = split_sign (num_strip s) in
      case strip_underscores None body of
        None \<Rightarrow> None
      | Some ds \<Rightarrow>
          if ds = [] \<or> \<not> list_all is_digit ds \<or> 4300 < length ds then None
          else Some (if neg then - int (digits_val ds) else int (digits_val ds)))"

text \<open>\<^verbatim>\<open>float(s)\<close> for a string. The result is a parse error (\<^verbatim>\<open>ValueError\<close>), a
  finite number, or a value \<^verbatim>\<open>math.isfinite\<close> rejects: an infinity, a NaN, or a decimal
  too large for binary64.\<close>

datatype float_parse = FErr | FFin rat | FNonFin

definition pow10 :: "int \<Rightarrow> rat" where
  "pow10 e = (if 0 \<le> e then 10 ^ nat e else 1 / 10 ^ nat (- e))"

text \<open>The exponent part of a decimal: nothing, or \<^verbatim>\<open>e\<close>, an optional sign and at least
  one digit.\<close>

definition parse_exponent :: "string \<Rightarrow> int option" where
  "parse_exponent s =
     (case s of
        [] \<Rightarrow> Some 0
      | c # cs \<Rightarrow>
          if c = CHR ''e'' \<or> c = CHR ''E'' then
            (let (neg, ds) = split_sign cs in
             if ds = [] \<or> \<not> list_all is_digit ds then None
             else Some (if neg then - int (digits_val ds) else int (digits_val ds)))
          else None)"

text \<open>An unsigned decimal: digits, an optional point and digits (at least one digit in
  all), an optional exponent. The value is exact.\<close>

definition parse_number :: "string \<Rightarrow> rat option" where
  "parse_number s =
     (let ip = takeWhile is_digit s;
          r1 = dropWhile is_digit s;
          (fp, r2) = (case r1 of
                        [] \<Rightarrow> ([], [])
                      | c # cs \<Rightarrow>
                          if c = CHR ''.'' then (takeWhile is_digit cs, dropWhile is_digit cs)
                          else ([], r1))
      in if ip = [] \<and> fp = [] then None
         else (case parse_exponent r2 of
                 None \<Rightarrow> None
               | Some e \<Rightarrow> Some (of_nat (digits_val (ip @ fp)) * pow10 (e - int (length fp)))))"

definition py_float_str :: "string \<Rightarrow> float_parse" where
  "py_float_str s =
     (case strip_underscores None (num_strip s) of
        None \<Rightarrow> FErr
      | Some u \<Rightarrow>
          (let (neg, body) = split_sign u in
           if lower body = ''inf'' \<or> lower body = ''infinity'' \<or> lower body = ''nan'' then FNonFin
           else (case parse_number body of
                   None \<Rightarrow> FErr
                 | Some v \<Rightarrow>
                     if overflow_threshold \<le> v then FNonFin
                     else FFin (if neg then - b64 v else b64 v))))"

section \<open>Field normalizer\<close>

text \<open>\<^verbatim>\<open>parse_time_value\<close>: every exception raised inside the \<^verbatim>\<open>try\<close> (a split into
  other than two parts, a part \<^verbatim>\<open>int()\<close> rejects, an hour or minute \<^verbatim>\<open>time()\<close>
  rejects) is caught and gives \<^verbatim>\<open>None\<close>.\<close>

definition parse_time_value :: "pyval \<Rightarrow> pytime option" where
  "parse_time_value v =
     (if \<not> truthy v \<or> \<not> is_str v then None
      else (case v of
              VStr s \<Rightarrow>
                (case split_on CHR '':'' s of
                   [hh, mm] \<Rightarrow>
                     (case (py_int_str hh, py_int_str mm) of
                        (Some h, Some m) \<Rightarrow>
                          if 0 \<le> h \<and> h \<le> 23 \<and> 0 \<le> m \<and> m \<le> 59
                          then Some (Time (nat h) (nat m)) else None
                      | _ \<Rightarrow> None)
                 | _ \<Rightarrow> None)
            | _ \<Rightarrow> None))"

text \<open>\<^verbatim>\<open>parse_decimal\<close>: \<^verbatim>\<open>None\<close> stays, a value that is not a string is returned as it
  is, a string becomes a finite float, or else its stripped text.\<close>

definition parse_decimal :: "pyval \<Rightarrow> pyval" where
  "parse_decimal v =
     (case v of
        VNone \<Rightarrow> VNone
      | VStr s \<Rightarrow>
          (let txt = replace_comma (strip s) in
           if txt = [] then VNone
           else (case py_float_str txt of
                   FFin num \<Rightarrow> VFloat num
                 | FNonFin \<Rightarrow> VStr (strip s)
                 | FErr \<Rightarrow> VStr (strip s)))
      | other \<Rightarrow> other)"

section \<open>Hour and break resolver\<close>

text \<open>\<^verbatim>\<open>gross_hours\<close> gives the quotient of the minutes by 60 as a number; the float the
  script holds is its rounding \<open>b64\<close>, taken where the value is used.\<close>

definition gross_hours :: "pytime option \<Rightarrow> pytime option \<Rightarrow> rat option" where
  "gross_hours start end' =
     (case (start, end') of
        (Some s, Some e) \<Rightarrow>
          (let start_minutes = int (hour s * 60 + minute s);
               end_minutes = int (hour e * 60 + minute e);
               diff = end_minutes - start_minutes;
               diff' = (if diff < 0 then diff + 24 * 60 else diff)
           in Some (of_int diff' / 60))
      | _ \<Rightarrow> None)"

definition auto_pause_hours :: "rat option \<Rightarrow> rat option" where
  "auto_pause_hours hours =
     (case hours of
        None \<Rightarrow> None
      | Some h \<Rightarrow> Some (if 19 / 2 < h then 3 / 4 else if 6 < h then 1 / 2 else 0))"

text \<open>The loop of \<^verbatim>\<open>infer_pause_from_net_hours\<close> over the candidate pauses, in order.\<close>

fun first_consistent :: "rat \<Rightarrow> rat list \<Rightarrow> rat option" where
  "first_consistent net_hours [] = None"
| "first_consistent net_hours (pause # rest) =
     (if auto_pause_hours (Some (net_hours + pause)) = Some pause then Some pause
      else first_consistent net_hours rest)"

definition infer_pause_from_net_hours :: "rat option \<Rightarrow> rat option" where
  "infer_pause_from_net_hours net_hours =
     (case net_hours of
        None \<Rightarrow> None
      | Some n \<Rightarrow> first_consistent n [0, 1 / 2, 3 / 4])"

definition auto_from_time :: string where
  "auto_from_time = ''__AUTO_FROM_TIME__''"

text \<open>The part of \<^verbatim>\<open>compute_day_cell_value\<close> after the override: the value derived from
  the clock times. The gross hours are the float \<^verbatim>\<open>diff / 60.0\<close>; \<^verbatim>\<open>float(pause_override)\<close>
  raises for an integer beyond the float range; the subtraction and \<^verbatim>\<open>round\<close> round to
  binary64. \<^verbatim>\<open>auto_pause_hours(gross) or 0.0\<close> replaces a result that is \<^verbatim>\<open>None\<close> or zero
  by zero.\<close>

definition value_from_time :: "pydict \<Rightarrow> py_error + pyval" where
  "value_from_time row =
     (let start = parse_time_value (get_default row ''beginn'' (VStr ''''));
          end' = parse_time_value (get_default row ''ende'' (VStr ''''))
      in case gross_hours start end' of
           None \<Rightarrow> Inr VNone
         | Some exact \<Rightarrow>
             (let gross = b64 exact;
                  pause_override = parse_decimal (get_default row ''pauseOverride'' (VStr ''''))
              in if is_number pause_override then
                   (case py_float pause_override of
                      Inl e \<Rightarrow> Inl e
                    | Inr po \<Rightarrow> Inr (VFloat (round2 (b64 (gross - po)))))
                 else
                   (let pause_auto = (case auto_pause_hours (Some gross) of
                                        None \<Rightarrow> 0
                                      | Some p \<Rightarrow> if p = 0 then 0 else p)
                    in Inr (VFloat (round2 (b64 (gross - pause_auto)))))))"

definition compute_day_cell_value :: "pydict \<Rightarrow> py_error + pyval" where
  "compute_day_cell_value row =
     (case get_none row ''dayHoursOverride'' of
        VStr override \<Rightarrow>
          (let override_str = strip override in
           if override_str \<noteq> [] \<and> override_str \<noteq> auto_from_time
           then Inr (parse_decimal (VStr override_str))
           else value_from_time row)
      | VNone \<Rightarrow> value_from_time row
      | override \<Rightarrow> Inr override)"

section \<open>Calendar dates\<close>

text \<open>\<^verbatim>\<open>parse_iso_date\<close> is \<^verbatim>\<open>datetime.strptime(value, "%Y-%m-%d").date()\<close>. The format
  is matched as year, month and day tokens separated by hyphens with nothing left over:
  four digits for \<^verbatim>\<open>%Y\<close>, the pattern \<^verbatim>\<open>1[0-2]|0[1-9]|[1-9]\<close> for \<^verbatim>\<open>%m\<close>, and
  \<^verbatim>\<open>3[0-1]|[1-2]\d|0[1-9]|[1-9]| [1-9]\<close> for \<^verbatim>\<open>%d\<close>. The date must exist (year at least
  1, day within the month). A value that is not a string is a \<^verbatim>\<open>TypeError\<close>.\<close>

definition nonzero_digit :: "char \<Rightarrow> bool" where
  "nonzero_digit c = (is_digit c \<and> c \<noteq> CHR ''0'')"

definition year_of_token :: "string \<Rightarrow> nat option" where
  "year_of_token t = (if length t = 4 \<and> list_all is_digit t then Some (digits_val t) else None)"

definition month_of_token :: "string \<Rightarrow> nat option" where
  "month_of_token t =
     (case t of
        [a] \<Rightarrow> if nonzero_digit a then Some (digit_val a) else None
      | [a, b] \<Rightarrow>
          if a = CHR ''1'' \<and> (b = CHR ''0'' \<or> b = CHR ''1'' \<or> b = CHR ''2'') then Some (10 + digit_val b)
          else if a = CHR ''0'' \<and> nonzero_digit b then Some (digit_val b)
          else None
      | _ \<Rightarrow> None)"

definition day_of_token :: "string \<Rightarrow> nat option" where
  "day_of_token t =
     (case t of
        [a] \<Rightarrow> if nonzero_digit a then Some (digit_val a) else None
      | [a, b] \<Rightarrow>
          if a = CHR ''3'' \<and> (b = CHR ''0'' \<or> b = CHR ''1'') then Some (30 + digit_val b)
          else if (a = CHR ''1'' \<or> a = CHR ''2'') \<and> is_digit b then Some (10 * digit_val a + digit_val b)
          else if (a = CHR ''0'' \<or> a = CHR '' '') \<and> nonzero_digit b then Some (digit_val b)
          else None
      | _ \<Rightarrow> None)"

definition is_leap :: "nat \<Rightarrow> bool" where
  "is_leap y = (y mod 4 = 0 \<and> (y mod 100 \<noteq> 0 \<or> y mod 400 = 0))"

definition days_in_month :: "nat \<Rightarrow> nat \<Rightarrow> nat" where
  "days_in_month y m =
     (if m = 2 then (if is_leap y then 29 else 28)
      else if m = 4 \<or> m = 6 \<or> m = 9 \<or> m = 11 then 30 else 31)"

definition parse_iso_date :: "pyval \<Rightarrow> py_error + pydate" where
  "parse_iso_date v =
     (case v of
        VStr s \<Rightarrow>
          (case split_on CHR ''-'' s of
             [ys, ms, ds] \<Rightarrow>
               (case (year_of_token ys, month_of_token ms, day_of_token ds) of
                  (Some y, Some m, Some d) \<Rightarrow>
                    if 1 \<le> y \<and> d \<le> days_in_month y m then Inr (Date y m d) else Inl ValueError
                | _ \<Rightarrow> Inl ValueError)
           | _ \<Rightarrow> Inl ValueError)
      | _ \<Rightarrow> Inl TypeError)"

text \<open>\<^verbatim>\<open>date.isoweekday()\<close>, 1 for Monday to 7 for Sunday, from the proleptic Gregorian
  ordinal of the date (1 January of year 1 is day 1, a Monday).\<close>

definition days_before_year :: "nat \<Rightarrow> nat" where
  "days_before_year y = (y - 1) * 365 + (y - 1) div 4 - (y - 1) div 100 + (y - 1) div 400"

definition days_before_month :: "nat \<Rightarrow> nat \<Rightarrow> nat" where
  "days_before_month y m = sum_list (map (days_in_month y) [1 ..< m])"

definition toordinal :: "pydate \<Rightarrow> nat" where
  "toordinal d = days_before_year (year d) + days_before_month (year d) (month d) + day d"

definition isoweekday :: "pydate \<Rightarrow> nat" where
  "isoweekday d = (toordinal d + 6) mod 7 + 1"

section \<open>Worksheets\<close>

text \<open>A worksheet gives every cell its value, \<open>VNone\<close> for an empty cell; a cell address
  such as \<^verbatim>\<open>A10\<close> is the pair of its column letters and its row number. A workbook maps
  sheet names to worksheets.\<close>

type_synonym cell = "string \<times> nat"

type_synonym worksheet = "cell \<Rightarrow> pyval"

type_synonym workbook = "string \<rightharpoonup> worksheet"

text \<open>What openpyxl stores when a value is assigned to a cell (\<^verbatim>\<open>Cell._bind_value\<close> and
  \<^verbatim>\<open>Cell.check_string\<close>): a string is cut to 32767 characters and refused with
  \<^verbatim>\<open>IllegalCharacterError\<close> when it holds a control character other than tab, line feed
  and carriage return; a list or a dictionary is refused with \<^verbatim>\<open>ValueError\<close>; every other
  value is stored as it is.\<close>

definition illegal_char :: "char \<Rightarrow> bool" where
  "illegal_char c =
     (let n = (of_char c :: nat) in n \<le> 8 \<or> n = 11 \<or> n = 12 \<or> (14 \<le> n \<and> n \<le> 31))"

definition cell_value :: "pyval \<Rightarrow> py_error + pyval" where
  "cell_value v =
     (case v of
        VStr s \<Rightarrow>
          (let t = take 32767 s in
           if list_ex illegal_char t then Inl IllegalCharacterError else Inr (VStr t))
      | VList xs \<Rightarrow> Inl ValueError
      | VDict kvs \<Rightarrow> Inl ValueError
      | other \<Rightarrow> Inr other)"

text \<open>The statements of the writer functions are runs of cell assignments
  \<^verbatim>\<open>ws[address] = expression\<close>, some of them under a condition. One step of such a run
  either does nothing (the condition is false), assigns the value of the expression to a
  cell, or raises (the expression raises). No expression reads the worksheet, so the steps
  of a run are fixed by the payload. A run stops at the first exception, from a step or from
  the assignment itself, and leaves the worksheet as it is then.\<close>

datatype step = Skip | Assign cell pyval | Raise py_error

fun run_steps :: "worksheet \<Rightarrow> step list \<Rightarrow> worksheet \<times> py_error option" where
  "run_steps ws [] = (ws, None)"
| "run_steps ws (Skip # rest) = run_steps ws rest"
| "run_steps ws (Raise e # rest) = (ws, Some e)"
| "run_steps ws (Assign c v # rest) =
     (case cell_value v of
        Inl e \<Rightarrow> (ws, Some e)
      | Inr stored \<Rightarrow> run_steps (ws(c := stored)) rest)"

section \<open>Grid writer\<close>

definition WEEKDAY_COLUMNS :: "string list" where
  "WEEKDAY_COLUMNS = [''H'', ''I'', ''J'', ''K'', ''L'', ''M'', ''N'']"

definition DATA_ROW_START :: nat where
  "DATA_ROW_START = 10"

definition DATA_ROW_END :: nat where
  "DATA_ROW_END = 49"

text \<open>The payload of one segment. Its keys are the fields of a record, so a payload always
  has them with the types the input contract gives; \<open>rows\<close> is optional, as the script
  reads it with \<^verbatim>\<open>payload.get("rows", [])\<close>.\<close>

record payload =
  kw :: pyval
  reportStartDe :: pyval
  reportEnd :: pyval
  profile :: pydict
  segmentDates :: "string list"
  allWeekDates :: "string list"
  rows :: "pydict list option"

text \<open>\<^verbatim>\<open>int(v)\<close>: a float is truncated towards zero, a string is parsed.\<close>

definition py_int :: "pyval \<Rightarrow> py_error + int" where
  "py_int v =
     (case v of
        VBool b \<Rightarrow> Inr (if b then 1 else 0)
      | VInt n \<Rightarrow> Inr n
      | VFloat x \<Rightarrow> Inr (if 0 \<le> x then \<lfloor>x\<rfloor> else \<lceil>x\<rceil>)
      | VStr s \<Rightarrow> (case py_int_str s of None \<Rightarrow> Inl ValueError | Some n \<Rightarrow> Inr n)
      | _ \<Rightarrow> Inl TypeError)"

text \<open>The assignments of \<^verbatim>\<open>write_header\<close>, in order.\<close>

definition header_steps :: "payload \<Rightarrow> step list" where
  "header_steps p =
     [case py_int (kw p) of Inl e \<Rightarrow> Raise e | Inr k \<Rightarrow> Assign (''H'', 1) (VInt k),
      Assign (''L'', 1) (reportStartDe p),
      case parse_iso_date (reportEnd p) of Inl e \<Rightarrow> Raise e | Inr d \<Rightarrow> Assign (''R'', 1) (VDate d),
      Assign (''D'', 3) (get_default (profile p) ''name'' (VStr '''')),
      Assign (''P'', 3) (get_default (profile p) ''vorname'' (VStr '''')),
      Assign (''D'', 5) (get_default (profile p) ''arbeitsstaetteProjekte'' (VStr '''')),
      Assign (''D'', 6) (get_default (profile p) ''artDerArbeit'' (VStr ''''))]"

definition write_header :: "worksheet \<Rightarrow> payload \<Rightarrow> worksheet \<times> py_error option" where
  "write_header ws p = run_steps ws (header_steps p)"

text \<open>\<open>clear_cells ws cols row\<close> is the loop \<^verbatim>\<open>for col in cols: ws[f"{col}{row}"] = None\<close>;
  assigning \<^verbatim>\<open>None\<close> never raises.\<close>

definition clear_cells :: "worksheet \<Rightarrow> string list \<Rightarrow> nat \<Rightarrow> worksheet" where
  "clear_cells ws cols row = fold (\<lambda>col w. w((col, row) := VNone)) cols ws"

text \<open>The second loop of \<^verbatim>\<open>clear_and_write_date_row\<close>: one step for each date of the
  week.\<close>

definition date_row_step :: "string list \<Rightarrow> string \<Rightarrow> step" where
  "date_row_step segment_dates iso_str =
     (if iso_str \<notin> set segment_dates then Skip
      else (case parse_iso_date (VStr iso_str) of
              Inl e \<Rightarrow> Raise e
            | Inr d \<Rightarrow> Assign (WEEKDAY_COLUMNS ! (isoweekday d - 1), 9) (VInt (int (day d)))))"

definition clear_and_write_date_row :: "worksheet \<Rightarrow> payload \<Rightarrow> worksheet \<times> py_error option" where
  "clear_and_write_date_row ws p =
     run_steps (clear_cells ws WEEKDAY_COLUMNS 9)
       (map (date_row_step (segmentDates p)) (allWeekDates p))"

definition clear_row :: "worksheet \<Rightarrow> nat \<Rightarrow> worksheet" where
  "clear_row ws row =
     (let ws1 = ws((''A'', row) := VNone);
          ws2 = ws1((''E'', row) := VNone);
          ws3 = ws2((''F'', row) := VNone);
          ws4 = clear_cells ws3 WEEKDAY_COLUMNS row
      in clear_cells ws4 [''Q'', ''R'', ''S'', ''T'', ''U'', ''V'', ''W'', ''X''] row)"

definition clear_data_rows :: "worksheet \<Rightarrow> worksheet" where
  "clear_data_rows ws = fold (\<lambda>row w. clear_row w row) [DATA_ROW_START ..< DATA_ROW_END + 1] ws"

text \<open>The weekday column of a day-record: none when the date is not a string or does not
  parse.\<close>

definition weekday_col :: "pydict \<Rightarrow> string option" where
  "weekday_col row_data =
     (case get_none row_data ''date'' of
        VStr iso_str \<Rightarrow>
          (case parse_iso_date (VStr iso_str) of
             Inr d \<Rightarrow> Some (WEEKDAY_COLUMNS ! (isoweekday d - 1))
           | Inl e \<Rightarrow> None)
      | _ \<Rightarrow> None)"

text \<open>The statement for the pause cell (column G) of one row; \<open>day_cell_value\<close> is the
  value \<^verbatim>\<open>compute_day_cell_value\<close> returned.\<close>

definition pause_step :: "nat \<Rightarrow> pydict \<Rightarrow> pyval \<Rightarrow> step" where
  "pause_step row_no row_data day_cell_value =
     (let start_t = parse_time_value (get_default row_data ''beginn'' (VStr ''''));
          end_t = parse_time_value (get_default row_data ''ende'' (VStr ''''));
          pause_override = parse_decimal (get_default row_data ''pauseOverride'' (VStr ''''))
      in if is_number pause_override then
           (case py_float pause_override of
              Inl e \<Rightarrow> Raise e
            | Inr po \<Rightarrow> Assign (''G'', row_no) (VFloat po))
         else if start_t = None \<and> end_t = None \<and> is_number day_cell_value then
           (case py_float day_cell_value of
              Inl e \<Rightarrow> Raise e
            | Inr net \<Rightarrow>
                (case infer_pause_from_net_hours (Some net) of
                   Some pause_auto_from_hours \<Rightarrow>
                     if 0 < pause_auto_from_hours
                     then Assign (''G'', row_no) (VFloat pause_auto_from_hours) else Skip
                 | None \<Rightarrow> Skip))
         else Skip)"

text \<open>The statement for the weekday hour cell of one row.\<close>

definition day_cell_step :: "nat \<Rightarrow> pydict \<Rightarrow> pyval \<Rightarrow> step" where
  "day_cell_step row_no row_data day_cell_value =
     (case weekday_col row_data of
        None \<Rightarrow> Skip
      | Some col \<Rightarrow>
          if is_number day_cell_value \<and> 0 \<le> num_value day_cell_value then
            (case py_float day_cell_value of
               Inl e \<Rightarrow> Raise e
             | Inr x \<Rightarrow> Assign (col, row_no) (VFloat x))
          else
            (case day_cell_value of
               VStr txt \<Rightarrow>
                 if strip txt \<noteq> [] then
                   (let marker = strip txt in
                    Assign (col, row_no) (VStr (if lower marker = ''x'' then ''x'' else marker)))
                 else Skip
             | _ \<Rightarrow> Skip))"

text \<open>A value, or the empty string in place of \<^verbatim>\<open>None\<close>.\<close>

definition or_empty :: "pyval \<Rightarrow> pyval" where
  "or_empty v = (if v = VNone then VStr '''' else v)"

text \<open>The body of the loop of \<^verbatim>\<open>write_rows\<close> for one day-record: the day value is
  computed first, then the cells of the row are assigned in this order.\<close>

definition row_steps :: "nat \<Rightarrow> pydict \<Rightarrow> step list" where
  "row_steps row_no row_data =
     (case compute_day_cell_value row_data of
        Inl e \<Rightarrow> [Raise e]
      | Inr day_cell_value \<Rightarrow>
          (let start_t = parse_time_value (get_default row_data ''beginn'' (VStr ''''));
               end_t = parse_time_value (get_default row_data ''ende'' (VStr ''''));
               zulage = parse_decimal (get_default row_data ''zulage'' (VStr ''''));
               sm_nr = get_default row_data ''smNr'' (VStr '''');
               sm_num = (if is_str sm_nr then parse_decimal sm_nr else sm_nr)
           in [Assign (''A'', row_no) (get_default row_data ''siteNameOrt'' (VStr '''')),
               case start_t of Some t \<Rightarrow> Assign (''E'', row_no) (VTime t) | None \<Rightarrow> Skip,
               case end_t of Some t \<Rightarrow> Assign (''F'', row_no) (VTime t) | None \<Rightarrow> Skip,
               pause_step row_no row_data day_cell_value,
               day_cell_step row_no row_data day_cell_value,
               Assign (''Q'', row_no) (get_default row_data ''lohnType'' (VStr '''')),
               Assign (''R'', row_no) (get_default row_data ''ausloese'' (VStr '''')),
               Assign (''S'', row_no) (or_empty zulage),
               Assign (''T'', row_no) (get_default row_data ''projektnummer'' (VStr '''')),
               Assign (''U'', row_no) (get_default row_data ''kabelschachtInfo'' (VStr '''')),
               Assign (''V'', row_no) (or_empty sm_num),
               Assign (''W'', row_no) (get_default row_data ''bauleiter'' (VStr '''')),
               Assign (''X'', row_no) (get_default row_data ''arbeitskollege'' (VStr ''''))]))"

definition write_row :: "worksheet \<Rightarrow> nat \<Rightarrow> pydict \<Rightarrow> worksheet \<times> py_error option" where
  "write_row ws row_no row_data = run_steps ws (row_steps row_no row_data)"

text \<open>The loop \<^verbatim>\<open>for idx, row_data in enumerate(rows_to_write)\<close>, from index \<open>idx\<close> on; an
  exception in a row ends it.\<close>

fun write_rows_from :: "worksheet \<Rightarrow> nat \<Rightarrow> pydict list \<Rightarrow> worksheet \<times> py_error option" where
  "write_rows_from ws idx [] = (ws, None)"
| "write_rows_from ws idx (row_data # rest) =
     (case write_row ws (DATA_ROW_START + idx) row_data of
        (ws', Some e) \<Rightarrow> (ws', Some e)
      | (ws', None) \<Rightarrow> write_rows_from ws' (Suc idx) rest)"

definition max_rows :: nat where
  "max_rows = DATA_ROW_END - DATA_ROW_START + 1"

text \<open>\<^verbatim>\<open>payload.get("rows", [])\<close>.\<close>

definition payload_rows :: "payload \<Rightarrow> pydict list" where
  "payload_rows p = (case rows p of None \<Rightarrow> [] | Some l \<Rightarrow> l)"

text \<open>\<^verbatim>\<open>write_rows\<close> returns the worksheet as it has left it together with the exception
  that ended it or the pair the script returns: the number of rows written and the number
  truncated.\<close>

definition write_rows :: "worksheet \<Rightarrow> payload \<Rightarrow> worksheet \<times> (py_error + nat \<times> int)" where
  "write_rows ws p =
     (let rs = payload_rows p;
          truncated = max 0 (int (length rs) - int max_rows);
          rows_to_write = take max_rows rs
      in case write_rows_from ws 0 rows_to_write of
           (ws', Some e) \<Rightarrow> (ws', Inl e)
         | (ws', None) \<Rightarrow> (ws', Inr (length rows_to_write, truncated)))"

section \<open>The export\<close>

text \<open>Decimal text of a number, as an f-string prints it.\<close>

fun str_of_nat :: "nat \<Rightarrow> string" where
  "str_of_nat n =
     (if n < 10 then [char_of (48 + n)]
      else str_of_nat (n div 10) @ [char_of (48 + n mod 10)])"

declare str_of_nat.simps [simp del]

definition str_of_int :: "int \<Rightarrow> string" where
  "str_of_int i = (if i < 0 then CHR ''-'' # str_of_nat (nat (- i)) else str_of_nat (nat i))"

record report =
  output_path :: string
  rows_written :: nat
  rows_truncated :: int
  warnings :: "string list"

definition truncation_warning :: "int \<Rightarrow> string" where
  "truncation_warning n =
     ''More than 40 lines for this report. Export truncated by '' @ str_of_int n
       @ '' line(s) to fit Excel rows 10-49.''"

text \<open>What a run of \<^verbatim>\<open>main\<close> leaves behind: the workbook in memory, the file saved (its
  path and content) if any, and either the exception that ended the run or the report
  printed.\<close>

record outcome =
  memory :: workbook
  saved :: "(string \<times> workbook) option"
  result :: "py_error + report"

definition sheet_name :: string where
  "sheet_name = ''Wochenbericht''"

text \<open>\<^verbatim>\<open>main\<close> from the loaded template workbook on: \<open>wb\<close> is what \<^verbatim>\<open>load_workbook\<close>
  returned, \<open>p\<close> the payload and \<open>out\<close> the output path. An exception ends the run before
  the workbook is saved.\<close>

definition main :: "workbook \<Rightarrow> payload \<Rightarrow> string \<Rightarrow> outcome" where
  "main wb p out =
     (case wb sheet_name of
        None \<Rightarrow>
          \<lparr>memory = wb, saved = None,
           result = Inl (RuntimeError ''Sheet 'Wochenbericht' not found in template'')\<rparr>
      | Some ws \<Rightarrow>
          (case write_header ws p of
             (ws1, Some e) \<Rightarrow> \<lparr>memory = wb(sheet_name \<mapsto> ws1), saved = None, result = Inl e\<rparr>
           | (ws1, None) \<Rightarrow>
               (case clear_and_write_date_row ws1 p of
                  (ws2, Some e) \<Rightarrow> \<lparr>memory = wb(sheet_name \<mapsto> ws2), saved = None, result = Inl e\<rparr>
                | (ws2, None) \<Rightarrow>
                    (case write_rows (clear_data_rows ws2) p of
                       (ws4, Inl e) \<Rightarrow>
                         \<lparr>memory = wb(sheet_name \<mapsto> ws4), saved = None, result = Inl e\<rparr>
                     | (ws4, Inr (written, truncated)) \<Rightarrow>
                         (let wb' = wb(sheet_name \<mapsto> ws4)
                          in \<lparr>memory = wb', saved = Some (out, wb'),
                              result = Inr \<lparr>output_path = out, rows_written = written,
                                            rows_truncated = truncated,
                                            warnings = (if truncated \<noteq> 0
                                                        then [truncation_warning truncated]
                                                        else [])\<rparr>\<rparr>)))))"

section \<open>Column sets of the data rows\<close>

text \<open>The columns \<^verbatim>\<open>clear_data_rows\<close> clears in every data row, in the order of its
  assignments.\<close>

definition cleared_columns :: "string list" where
  "cleared_columns =
     [''A'', ''E'', ''F''] @ WEEKDAY_COLUMNS @ [''Q'', ''R'', ''S'', ''T'', ''U'', ''V'', ''W'', ''X'']"

section \<open>Example inputs\<close>

text \<open>A day-record with clock times only: 08:00 to 17:00.\<close>

definition example_row :: pydict where
  "example_row = [''beginn'' \<mapsto> VStr ''08:00'', ''ende'' \<mapsto> VStr ''17:00'']"

text \<open>A worksheet with every cell empty, a template workbook that has the report sheet and
  one that lacks it.\<close>

definition empty_sheet :: worksheet where
  "empty_sheet = (\<lambda>c. VNone)"

definition example_workbook :: workbook where
  "example_workbook = [''Wochenbericht'' \<mapsto> empty_sheet]"

definition other_workbook :: workbook where
  "other_workbook = [''Tabelle1'' \<mapsto> empty_sheet]"

text \<open>A payload for calendar week 12 of 2024 with \<open>n\<close> copies of the example day-record,
  dated Wednesday 20 March 2024.\<close>

definition example_payload :: "nat \<Rightarrow> payload" where
  "example_payload n =
     \<lparr>kw = VInt 12, reportStartDe = VStr ''18.03.2024'', reportEnd = VStr ''2024-03-24'',
      profile = Map.empty, segmentDates = [''2024-03-20''],
      allWeekDates = [''2024-03-18'', ''2024-03-20''],
      rows = Some (replicate n (example_row(''date'' \<mapsto> VStr ''2024-03-20'')))\<rparr>"

text \<open>An integer beyond the range of binary64, as a JSON document may hold it.\<close>

definition huge_int :: int where
  "huge_int = 10 ^ 400"

section \<open>Properties of the hour and break resolver\<close>

lemma infer_pause_closed_form:
  "infer_pause_from_net_hours (Some n) = Some (if n \<le> 6 then 0 else if n \<le> 9 then 1 / 2 else 3 / 4)"
  by (simp add: infer_pause_from_net_hours_def auto_pause_hours_def)

text \<open>
  C2. The automatic break is a three-tier step function of the gross hours \<open>g\<close>: 0.75 when
  \<open>g > 9.5\<close>, 0.5 when \<open>6 < g \<le> 9.5\<close>, 0.0 when \<open>g \<le> 6\<close>; it depends on \<open>g\<close> alone, so the same
  gross hours always give the same break.
\<close>

theorem auto_pause_three_tiers:
  "(19 / 2 < g \<longrightarrow> auto_pause_hours (Some g) = Some (3 / 4)) \<and>
   (6 < g \<and> g \<le> 19 / 2 \<longrightarrow> auto_pause_hours (Some g) = Some (1 / 2)) \<and>
   (g \<le> 6 \<longrightarrow> auto_pause_hours (Some g) = Some 0) \<and>
   (g' = g \<longrightarrow> auto_pause_hours (Some g') = auto_pause_hours (Some g))"
  by (simp add: auto_pause_hours_def)

theorem auto_pause_three_tiers_witness:
  "auto_pause_hours (Some 10) = Some (3 / 4) \<and>
   auto_pause_hours (Some (19 / 2)) = Some (1 / 2) \<and>
   auto_pause_hours (Some 6) = Some 0"
  using auto_pause_three_tiers [of 10 10] auto_pause_three_tiers [of "19 / 2" "19 / 2"]
    auto_pause_three_tiers [of 6 6]
  by simp



text \<open>
  C3. For every net-hours number the inference returns a candidate among 0, 0.5 and 0.75
  that the automatic break of net plus candidate reproduces, and it is the smallest such
  candidate; net 8.0 gives 0.5 and net 5.0 gives 0.
\<close>

theorem infer_pause_smallest_consistent:
  "(\<exists>p. infer_pause_from_net_hours (Some n) = Some p \<and>
        p \<in> {0, 1 / 2, 3 / 4} \<and>
        auto_pause_hours (Some (n + p)) = Some p \<and>
        (\<forall>q \<in> {0, 1 / 2, 3 / 4}. auto_pause_hours (Some (n + q)) = Some q \<longrightarrow> p \<le> q)) \<and>
   infer_pause_from_net_hours (Some 8) = Some (1 / 2) \<and>
   infer_pause_from_net_hours (Some 5) = Some 0"
  by (simp add: infer_pause_closed_form auto_pause_hours_def)

theorem infer_pause_smallest_consistent_witness:
  "infer_pause_from_net_hours (Some (35 / 4)) = Some (1 / 2) \<and>
   auto_pause_hours (Some (35 / 4 + 1 / 2)) = Some (1 / 2) \<and>
   auto_pause_hours (Some (35 / 4 + 3 / 4)) \<noteq> Some (3 / 4) \<and>
   auto_pause_hours (Some (35 / 4 + 0)) \<noteq> Some 0"
  using infer_pause_smallest_consistent [of "35 / 4"]
  by (simp add: auto_pause_hours_def infer_pause_from_net_hours_def)

text \<open>
  C10. For a net-hours number the inference always returns a pause: 0.0 when net \<open>\<le> 6\<close>, 0.5
  when \<open>6 < net \<le> 9\<close>, 0.75 when net \<open>> 9\<close>; the branch returning no value is not reached.
\<close>

theorem infer_pause_total:
  "infer_pause_from_net_hours (Some n) \<noteq> None \<and>
   (n \<le> 6 \<longrightarrow> infer_pause_from_net_hours (Some n) = Some 0) \<and>
   (6 < n \<and> n \<le> 9 \<longrightarrow> infer_pause_from_net_hours (Some n) = Some (1 / 2)) \<and>
   (9 < n \<longrightarrow> infer_pause_from_net_hours (Some n) = Some (3 / 4))"
  by (simp add: infer_pause_closed_form)

theorem infer_pause_total_witness:
  "infer_pause_from_net_hours (Some 6) = Some 0 \<and>
   infer_pause_from_net_hours (Some 9) = Some (1 / 2) \<and>
   infer_pause_from_net_hours (Some (37 / 4)) = Some (3 / 4)"
  using infer_pause_total [of 6] infer_pause_total [of 9] infer_pause_total [of "37 / 4"]
  by simp

section \<open>Properties of the string operations\<close>

lemma dropWhile_self: "xs = [] \<or> \<not> P (hd xs) \<Longrightarrow> dropWhile P xs = xs"
  by (cases xs) auto

lemma last_dropWhile: "dropWhile P xs \<noteq> [] \<Longrightarrow> last (dropWhile P xs) = last xs"
  by (induction xs) (auto split: if_splits)

lemma strip_ends:
  assumes "strip s \<noteq> []"
  shows "\<not> py_isspace (hd (strip s))" and "\<not> py_isspace (last (strip s))"
proof -
  let ?a = "dropWhile py_isspace s"
  let ?b = "dropWhile py_isspace (rev ?a)"
  from assms have b: "?b \<noteq> []" by (simp add: strip_def)
  have a: "?a \<noteq> []"
  proof
    assume "?a = []"
    with b show False by simp
  qed
  from b have "\<not> py_isspace (hd ?b)" by (rule hd_dropWhile)
  then show "\<not> py_isspace (last (strip s))"
    using b by (simp add: strip_def last_rev)
  from b have "last ?b = last (rev ?a)" by (rule last_dropWhile)
  also have "\<dots> = hd ?a" using a by (simp add: last_rev)
  finally have "last ?b = hd ?a" .
  moreover from a have "\<not> py_isspace (hd ?a)" by (rule hd_dropWhile)
  ultimately show "\<not> py_isspace (hd (strip s))"
    using b by (simp add: strip_def hd_rev)
qed

lemma strip_fixed:
  assumes "t = [] \<or> (\<not> py_isspace (hd t) \<and> \<not> py_isspace (last t))"
  shows "strip t = t"
proof (cases "t = []")
  case True
  then show ?thesis by (simp add: strip_def)
next
  case False
  with assms have h: "\<not> py_isspace (hd t)" and l: "\<not> py_isspace (last t)" by auto
  from h have 1: "dropWhile py_isspace t = t" by (simp add: dropWhile_self)
  from l False have "dropWhile py_isspace (rev t) = rev t"
    by (simp add: dropWhile_self hd_rev)
  with 1 show ?thesis by (simp add: strip_def)
qed

lemma strip_idem: "strip (strip s) = strip s"
  by (rule strip_fixed) (use strip_ends [of s] in blast)

lemma split_on_no_sep: "sep \<notin> set s \<Longrightarrow> split_on sep s = [s]"
  by (induction s) auto

lemma lower_char_x: "lower_char c = CHR ''x'' \<longleftrightarrow> c = CHR ''x'' \<or> c = CHR ''X''"
proof -
  have X: "(of_char c :: nat) = 88 \<longleftrightarrow> c = CHR ''X''"
    using of_char_eq_iff [of c "CHR ''X''", where ?'a = nat] by simp
  show ?thesis
    by (auto simp: lower_char_def Let_def char_of_eq_iff take_bit_eq_mod X)
qed

lemma lower_x: "lower t = ''x'' \<longleftrightarrow> t = ''x'' \<or> t = ''X''"
  by (cases t) (auto simp: lower_def lower_char_x)

section \<open>A template without the report sheet\<close>

text \<open>
  C6. When the template workbook has no sheet named Wochenbericht, the run ends with the
  error "Sheet 'Wochenbericht' not found in template": the workbook in memory is the one
  loaded (no cell written, no sheet created) and no file is saved.
\<close>

theorem missing_sheet_fails_fast:
  "sheet_name \<notin> dom wb \<longrightarrow>
     result (main wb p out) = Inl (RuntimeError ''Sheet 'Wochenbericht' not found in template'') \<and>
     saved (main wb p out) = None \<and>
     memory (main wb p out) = wb"
  by (auto simp: main_def)

theorem missing_sheet_fails_fast_witness:
  "result (main other_workbook (example_payload 1) ''out.xlsx'')
     = Inl (RuntimeError ''Sheet 'Wochenbericht' not found in template'') \<and>
   saved (main other_workbook (example_payload 1) ''out.xlsx'') = None \<and>
   memory (main other_workbook (example_payload 1) ''out.xlsx'') = other_workbook \<and>
   dom other_workbook = {''Tabelle1''}"
  using missing_sheet_fails_fast [of other_workbook "example_payload 1" "''out.xlsx''"]
  by (simp add: other_workbook_def sheet_name_def)

section \<open>Properties of the field normalizer\<close>

lemma parse_time_value_empty: "parse_time_value (VStr '''') = None"
  by (simp add: parse_time_value_def)

lemma parse_time_value_range:
  "parse_time_value v = Some t \<Longrightarrow> hour t \<le> 23 \<and> minute t \<le> 59"
  by (auto simp: parse_time_value_def split: if_splits pyval.splits list.splits option.splits)

lemma parse_decimal_str_cases:
  "parse_decimal (VStr s) = VNone \<or> (\<exists>x. parse_decimal (VStr s) = VFloat x)
     \<or> parse_decimal (VStr s) = VStr (strip s)"
  by (auto simp: parse_decimal_def Let_def split: float_parse.splits)

lemma parse_decimal_strip: "parse_decimal (VStr (strip s)) = parse_decimal (VStr s)"
  by (simp add: parse_decimal_def strip_idem Let_def split: float_parse.splits)

lemma parse_decimal_text_stripped:
  "parse_decimal (VStr s) = VStr t \<Longrightarrow> t = strip s \<and> t \<noteq> []"
  by (auto simp: parse_decimal_def Let_def replace_comma_def split: float_parse.splits if_splits)

section \<open>Day-hours precedence\<close>

lemma round_half_even_close: "\<bar>of_int (round_half_even y) - y\<bar> \<le> 1 / 2"
proof -
  define f where "f = \<lfloor>y\<rfloor>"
  have f: "of_int f \<le> y" "y < of_int f + 1"
    unfolding f_def by linarith+
  show ?thesis
    unfolding round_half_even_def Let_def f_def [symmetric]
    using f by (auto simp: abs_if)
qed

lemma decimal2_close: "\<bar>decimal2 x - x\<bar> \<le> 1 / 200"
  using round_half_even_close [of "x * 100"]
  by (simp add: decimal2_def abs_if split: if_splits)

lemma compute_override_text:
  assumes "get_none row ''dayHoursOverride'' = VStr ov" "strip ov \<noteq> []" "strip ov \<noteq> auto_from_time"
  shows "compute_day_cell_value row = Inr (parse_decimal (VStr ov))"
  using assms by (simp add: compute_day_cell_value_def parse_decimal_strip)

lemma compute_override_other:
  assumes "\<not> is_str (get_none row ''dayHoursOverride'')" "get_none row ''dayHoursOverride'' \<noteq> VNone"
  shows "compute_day_cell_value row = Inr (get_none row ''dayHoursOverride'')"
  using assms by (cases "get_none row ''dayHoursOverride''") (simp_all add: compute_day_cell_value_def)

lemma compute_derive:
  assumes "get_none row ''dayHoursOverride'' = VNone \<or>
     (\<exists>ov. get_none row ''dayHoursOverride'' = VStr ov \<and> (strip ov = [] \<or> strip ov = auto_from_time))"
  shows "compute_day_cell_value row = value_from_time row"
  using assms by (auto simp: compute_day_cell_value_def)

lemma value_from_time_cases:
  "value_from_time row =
     (case (parse_time_value (get_default row ''beginn'' (VStr '''')),
            parse_time_value (get_default row ''ende'' (VStr ''''))) of
        (Some s, Some e) \<Rightarrow>
          (case gross_hours (Some s) (Some e) of
             Some g \<Rightarrow>
               (if is_number (parse_decimal (get_default row ''pauseOverride'' (VStr ''''))) then
                  (case py_float (parse_decimal (get_default row ''pauseOverride'' (VStr ''''))) of
                     Inl err \<Rightarrow> Inl err
                   | Inr po \<Rightarrow> Inr (VFloat (round2 (b64 (b64 g - po)))))
                else
                  Inr (VFloat (round2 (b64 (b64 g -
                    (if 19 / 2 < b64 g then 3 / 4 else if 6 < b64 g then 1 / 2 else 0))))))
           | None \<Rightarrow> Inr VNone)
      | _ \<Rightarrow> Inr VNone)"
  by (auto simp: value_from_time_def gross_hours_def auto_pause_hours_def Let_def
      split: option.splits)

lemma value_from_time_not_text: "value_from_time row \<noteq> Inr (VStr t)"
  by (auto simp: value_from_time_def Let_def split: option.splits sum.splits)

lemma compute_text_stripped:
  assumes "compute_day_cell_value row = Inr (VStr t)"
  shows "strip t = t \<and> t \<noteq> []"
proof -
  from assms value_from_time_not_text [of row t]
  obtain ov where "parse_decimal (VStr (strip ov)) = VStr t"
    by (auto simp: compute_day_cell_value_def Let_def split: pyval.splits if_splits)
  then have "t = strip (strip ov)" and "t \<noteq> []"
    using parse_decimal_text_stripped [of "strip ov" t] by blast+
  then show ?thesis by (auto simp: strip_idem)
qed

text \<open>
  C1, as amended. The override wins when it is present, not null and, if it is text,
  neither blank nor the derive-from-time sentinel once trimmed: the result is then the
  override itself (text goes through \<open>parse_decimal\<close>: a decimal, or the trimmed text),
  whatever the clock times are. Otherwise, when both \<open>beginn\<close> and \<open>ende\<close> parse, the result
  is the gross hours minus the break (the \<open>pauseOverride\<close> when it is a number, else the
  automatic break of the gross hours), rounded to two decimal places, all in binary64
  arithmetic; only an integer \<open>pauseOverride\<close> too large for a float raises
  \<open>OverflowError\<close> instead. Otherwise there is no value. Rounding to two decimal places
  gives the binary64 number nearest to the multiple of 0.01 nearest to the operand.
\<close>

theorem day_hours_precedence:
  "(get_none row ''dayHoursOverride'' = VStr ov \<and> strip ov \<noteq> [] \<and> strip ov \<noteq> auto_from_time
      \<longrightarrow> compute_day_cell_value row = Inr (parse_decimal (VStr ov))) \<and>
   (\<not> is_str (get_none row ''dayHoursOverride'') \<and> get_none row ''dayHoursOverride'' \<noteq> VNone
      \<longrightarrow> compute_day_cell_value row = Inr (get_none row ''dayHoursOverride'')) \<and>
   (get_none row ''dayHoursOverride'' = VNone \<or>
    (get_none row ''dayHoursOverride'' = VStr ov \<and> (strip ov = [] \<or> strip ov = auto_from_time))
      \<longrightarrow> compute_day_cell_value row =
           (case (parse_time_value (get_default row ''beginn'' (VStr '''')),
                  parse_time_value (get_default row ''ende'' (VStr ''''))) of
              (Some s, Some e) \<Rightarrow>
                (case gross_hours (Some s) (Some e) of
                   Some g \<Rightarrow>
                     (if is_number (parse_decimal (get_default row ''pauseOverride'' (VStr ''''))) then
                        (case py_float (parse_decimal (get_default row ''pauseOverride'' (VStr ''''))) of
                           Inl err \<Rightarrow> Inl err
                         | Inr po \<Rightarrow> Inr (VFloat (round2 (b64 (b64 g - po)))))
                      else
                        Inr (VFloat (round2 (b64 (b64 g -
                          (if 19 / 2 < b64 g then 3 / 4 else if 6 < b64 g then 1 / 2 else 0))))))
                 | None \<Rightarrow> Inr VNone)
            | _ \<Rightarrow> Inr VNone)) \<and>
   round2 x = b64 (of_int (round_half_even (x * 100)) / 100) \<and>
   \<bar>of_int (round_half_even (x * 100)) / 100 - x\<bar> \<le> 1 / 200 \<and>
   (py_float v = Inl OverflowError
      \<longleftrightarrow> (\<exists>n. v = VInt n \<and> overflow_threshold \<le> \<bar>of_int n\<bar>))"
proof -
  have d: "get_none row ''dayHoursOverride'' = VNone \<or>
    (get_none row ''dayHoursOverride'' = VStr ov \<and> (strip ov = [] \<or> strip ov = auto_from_time))
      \<Longrightarrow> compute_day_cell_value row = value_from_time row"
    by (rule compute_derive) blast
  have r: "round2 x = b64 (of_int (round_half_even (x * 100)) / 100)"
    by (simp add: round2_def decimal2_def)
  have c: "\<bar>of_int (round_half_even (x * 100)) / 100 - x\<bar> \<le> 1 / 200"
    using decimal2_close [of x] by (simp add: decimal2_def)
  have f: "py_float v = Inl OverflowError
      \<longleftrightarrow> (\<exists>n. v = VInt n \<and> overflow_threshold \<le> \<bar>of_int n\<bar>)"
    by (cases v) (simp_all add: py_float_def)
  from d r c f show ?thesis
    unfolding value_from_time_cases [symmetric]
    using compute_override_text [of row ov] compute_override_other [of row]
    by blast
qed

section \<open>Evaluated examples\<close>

lemma example_times:
  "parse_time_value (VStr ''08:00'') = Some (Time 8 0)"
  "parse_time_value (VStr ''17:00'') = Some (Time 17 0)"
  by code_simp+

lemma example_b64:
  "b64 9 = 9"
  "b64 (17 / 2) = 17 / 2"
  "b64 (3 / 2) = 3 / 2"
  "b64 1 = 1"
  "b64 (1 / 200) = 5764607523034235 / 1152921504606846976"
  "b64 (10370528933938588549 / 1152921504606846976) = 5063734831024701 / 562949953421312"
  "b64 (899 / 100) = 5060920081257595 / 562949953421312"
  by code_simp+

lemma example_decimal2:
  "decimal2 (17 / 2) = 17 / 2"
  "decimal2 (5063734831024701 / 562949953421312) = 899 / 100"
  by code_simp+

lemma example_decimals:
  "parse_decimal (VStr '''') = VNone"
  "parse_decimal (VStr ''x'') = VStr ''x''"
  "parse_decimal (VStr ''abc'') = VStr ''abc''"
  by code_simp+

lemma example_float: "py_float_str ''1.5'' = FFin (3 / 2)"
proof -
  have "strip_underscores None (num_strip ''1.5'') = Some ''1.5''" by code_simp
  moreover have "split_sign ''1.5'' = (False, ''1.5'')" by code_simp
  moreover have "lower ''1.5'' = ''1.5''" by code_simp
  moreover have "parse_number ''1.5'' = Some (3 / 2)" by code_simp
  ultimately show ?thesis by (simp add: py_float_str_def overflow_threshold_def example_b64)
qed

lemma example_decimal_comma: "parse_decimal (VStr ''1,5'') = VFloat (3 / 2)"
proof -
  have "replace_comma (strip ''1,5'') = ''1.5''" by code_simp
  then show ?thesis by (simp add: parse_decimal_def example_float)
qed

lemma example_float_small:
  "py_float_str ''0.005'' = FFin (5764607523034235 / 1152921504606846976)"
proof -
  have "strip_underscores None (num_strip ''0.005'') = Some ''0.005''" by code_simp
  moreover have "split_sign ''0.005'' = (False, ''0.005'')" by code_simp
  moreover have "lower ''0.005'' = ''0.005''" by code_simp
  moreover have "parse_number ''0.005'' = Some (1 / 200)" by code_simp
  ultimately show ?thesis by (simp add: py_float_str_def overflow_threshold_def example_b64)
qed

lemma example_decimal_small:
  "parse_decimal (VStr ''0,005'') = VFloat (5764607523034235 / 1152921504606846976)"
proof -
  have "replace_comma (strip ''0,005'') = ''0.005''" by code_simp
  then show ?thesis by (simp add: parse_decimal_def example_float_small)
qed

lemma example_strips:
  "strip '''' = ''''"
  "strip ''1,5'' = ''1,5''"
  "strip ''__AUTO_FROM_TIME__'' = ''__AUTO_FROM_TIME__''"
  by code_simp+

lemma example_gross: "gross_hours (Some (Time 8 0)) (Some (Time 17 0)) = Some 9"
  by (simp add: gross_hours_def)

lemma example_value_from_time:
  "k \<noteq> ''beginn'' \<Longrightarrow> k \<noteq> ''ende'' \<Longrightarrow> k \<noteq> ''pauseOverride''
     \<Longrightarrow> value_from_time (example_row(k \<mapsto> v)) = Inr (VFloat (17 / 2))"
  by (simp add: value_from_time_def example_row_def get_default_def example_times
      example_decimals example_gross auto_pause_hours_def round2_def example_b64
      example_decimal2)

lemma example_value_small_pause:
  "value_from_time (example_row(''pauseOverride'' \<mapsto> VStr ''0,005'')) = Inr (VFloat (b64 (899 / 100)))"
proof -
  have "(9 :: rat) - 5764607523034235 / 1152921504606846976
      = 10370528933938588549 / 1152921504606846976"
    by simp
  then show ?thesis
    by (simp add: value_from_time_def example_row_def get_default_def example_times
        example_decimal_small example_gross py_float_def round2_def example_b64(1,6)
        example_decimal2)
qed

lemma huge_int_overflows: "overflow_threshold \<le> \<bar>of_int huge_int\<bar>"
  by (simp add: overflow_threshold_def huge_int_def)

lemma example_value_huge_pause:
  "value_from_time (example_row(''pauseOverride'' \<mapsto> VInt huge_int)) = Inl OverflowError"
  using huge_int_overflows
  by (simp add: value_from_time_def example_row_def get_default_def example_times
      example_gross py_float_def parse_decimal_def)

theorem day_hours_precedence_witness:
  "compute_day_cell_value (example_row(''dayHoursOverride'' \<mapsto> VStr ''1,5'')) = Inr (VFloat (3 / 2)) \<and>
   compute_day_cell_value (example_row(''dayHoursOverride'' \<mapsto> VInt 7)) = Inr (VInt 7) \<and>
   compute_day_cell_value (example_row(''dayHoursOverride'' \<mapsto> VStr ''__AUTO_FROM_TIME__''))
     = Inr (VFloat (17 / 2)) \<and>
   compute_day_cell_value (example_row(''pauseOverride'' \<mapsto> VStr ''0,005''))
     = Inr (VFloat (b64 (899 / 100))) \<and>
   compute_day_cell_value (example_row(''pauseOverride'' \<mapsto> VInt huge_int)) = Inl OverflowError"
proof -
  have 1: "compute_day_cell_value (example_row(''dayHoursOverride'' \<mapsto> VStr ''1,5'')) = Inr (VFloat (3 / 2))"
    using day_hours_precedence [of "example_row(''dayHoursOverride'' \<mapsto> VStr ''1,5'')" "''1,5''" 0 VNone]
    by (simp add: get_none_def get_default_def example_strips example_decimal_comma auto_from_time_def)
  have 2: "compute_day_cell_value (example_row(''dayHoursOverride'' \<mapsto> VInt 7)) = Inr (VInt 7)"
    using day_hours_precedence [of "example_row(''dayHoursOverride'' \<mapsto> VInt 7)" "[]" 0 VNone]
    by (simp add: get_none_def get_default_def)
  have 3: "compute_day_cell_value (example_row(''dayHoursOverride'' \<mapsto> VStr ''__AUTO_FROM_TIME__''))
     = Inr (VFloat (17 / 2))"
    using day_hours_precedence [of "example_row(''dayHoursOverride'' \<mapsto> VStr ''__AUTO_FROM_TIME__'')"
        "''__AUTO_FROM_TIME__''" 0 VNone]
    unfolding value_from_time_cases [symmetric]
    by (simp add: get_none_def get_default_def example_strips auto_from_time_def
        example_value_from_time)
  have 4: "compute_day_cell_value (example_row(''pauseOverride'' \<mapsto> VStr ''0,005''))
     = Inr (VFloat (b64 (899 / 100)))"
    using day_hours_precedence [of "example_row(''pauseOverride'' \<mapsto> VStr ''0,005'')" "[]" 0 VNone]
    unfolding value_from_time_cases [symmetric]
    by (simp add: get_none_def get_default_def example_row_def example_value_small_pause [unfolded example_row_def])
  have 5: "compute_day_cell_value (example_row(''pauseOverride'' \<mapsto> VInt huge_int)) = Inl OverflowError"
    using day_hours_precedence [of "example_row(''pauseOverride'' \<mapsto> VInt huge_int)" "[]" 0 VNone]
    unfolding value_from_time_cases [symmetric]
    by (simp add: get_none_def get_default_def example_row_def example_value_huge_pause [unfolded example_row_def])
  from 1 2 3 4 5 show ?thesis by blast
qed

text \<open>A blank override is present and is not the sentinel, yet the value comes from the
  clock times, not from the override (whose own value is none).\<close>

theorem blank_override_counterexample:
  "get_none (example_row(''dayHoursOverride'' \<mapsto> VStr '''')) ''dayHoursOverride'' = VStr '''' \<and>
   '''' \<noteq> auto_from_time \<and>
   parse_decimal (VStr '''') = VNone \<and>
   compute_day_cell_value (example_row(''dayHoursOverride'' \<mapsto> VStr '''')) = Inr (VFloat (17 / 2))"
  by (simp add: compute_day_cell_value_def get_none_def get_default_def example_strips
      example_decimals auto_from_time_def example_value_from_time)

end
